theory Spec2Isabelle
  imports Complex_Main
begin

section \<open>The Python operations that dcf.py relies on\<close>

text \<open>
  The valuation engine of the repository is the function \<^verbatim>\<open>CalculateDCFDensity\<close> of
  \<^verbatim>\<open>dcf.py\<close>. It works on Python floats, lists and one \<^verbatim>\<open>int\<close> (the forward
  horizon). The embedding takes a float to be a real number: rounding, overflow, NaN and
  infinities are outside the model, and every theorem below is a statement about the
  arithmetic the code performs, read over the reals. What the model keeps of Python are
  the two exceptions the function can raise: an index out of range and a division by zero.
\<close>

datatype py_error = IndexError | ZeroDivisionError

text \<open>\<^verbatim>\<open>list(range(a, b))\<close>: the integers from \<open>a\<close> up to \<open>b - 1\<close>, none when \<open>b \<le> a\<close>.\<close>

definition py_range :: "int \<Rightarrow> int \<Rightarrow> int list" where
  "py_range a b = map (\<lambda>k. a + int k) [0..<nat (b - a)]"

text \<open>\<^verbatim>\<open>xs[i]\<close>: a negative index counts from the end; out of range raises.\<close>

definition py_index :: "'a list \<Rightarrow> int \<Rightarrow> py_error + 'a" where
  "py_index xs i =
     (if 0 \<le> i then (if i < int (length xs) then Inr (xs ! nat i) else Inl IndexError)
      else (if - int (length xs) \<le> i then Inr (xs ! nat (int (length xs) + i))
            else Inl IndexError))"

text \<open>\<^verbatim>\<open>x / y\<close> on floats raises when the divisor is zero.\<close>

definition py_truediv :: "real \<Rightarrow> real \<Rightarrow> py_error + real" where
  "py_truediv x y = (if y = 0 then Inl ZeroDivisionError else Inr (x / y))"

text \<open>
  \<^verbatim>\<open>x ** n\<close> with a float base and an \<^verbatim>\<open>int\<close> exponent: zero to a negative power
  raises, every other case is a value.
\<close>

definition py_pow :: "real \<Rightarrow> int \<Rightarrow> py_error + real" where
  "py_pow x n =
     (if 0 \<le> n then Inr (x ^ nat n)
      else if x = 0 then Inl ZeroDivisionError
      else Inr (1 / x ^ nat (- n)))"

text \<open>\<^verbatim>\<open>sum(xs)\<close> adds from the left, starting at 0.\<close>

definition py_sum :: "real list \<Rightarrow> real" where
  "py_sum xs = foldl (+) 0 xs"

section \<open>The valuation engine\<close>

text \<open>
  Lines 35 to 37, the loop \<^verbatim>\<open>for i in range(1,periodForwards)\<close>, with the two lists it
  appends to as its state. The counter runs from its start value while it is below
  \<open>periodForwards\<close>.
\<close>

function dcf_loop ::
  "int \<Rightarrow> int \<Rightarrow> real \<Rightarrow> real \<Rightarrow> int list \<Rightarrow> real list \<Rightarrow> real list
     \<Rightarrow> py_error + (real list \<times> real list)" where
  "dcf_loop i periodForwards growthRate discountRate tlist ffcf pvffcf =
     (if i < periodForwards then
        (case py_index ffcf (i - 1) of Inl e \<Rightarrow> Inl e | Inr prev \<Rightarrow>
         (let ffcf' = ffcf @ [prev * (1 + growthRate)] in
          case py_index ffcf' i of Inl e \<Rightarrow> Inl e | Inr cur \<Rightarrow>
          (case py_index tlist i of Inl e \<Rightarrow> Inl e | Inr t \<Rightarrow>
           (case py_pow (1 + discountRate) t of Inl e \<Rightarrow> Inl e | Inr p \<Rightarrow>
            (case py_truediv cur p of Inl e \<Rightarrow> Inl e | Inr pv \<Rightarrow>
               dcf_loop (i + 1) periodForwards growthRate discountRate tlist
                 ffcf' (pvffcf @ [pv]))))))
      else Inr (ffcf, pvffcf))"
  by pat_completeness auto
termination
  by (relation "measure (\<lambda>(i, periodForwards, _). nat (periodForwards - i))") auto

declare dcf_loop.simps [simp del]

text \<open>
  Lines 25 to 37: the list of year offsets, the seed \<open>fcf[-1]\<close>, the first projected
  year and the loop. The result is the triple \<open>(tlist, ffcf, pvffcf)\<close> as it stands
  before line 39: \<open>ffcf\<close> holds the explicit projection, \<open>pvffcf\<close> its present values.
\<close>

definition dcf_projection ::
  "real list \<Rightarrow> int \<Rightarrow> real \<Rightarrow> real \<Rightarrow> py_error + (int list \<times> real list \<times> real list)" where
  "dcf_projection fcf periodForwards growthRate discountRate =
     (let tlist = py_range 1 (periodForwards + 2) in
      case py_index fcf (- 1) of Inl e \<Rightarrow> Inl e | Inr fcf0 \<Rightarrow>
      (let ffcf = [fcf0 * (1 + growthRate)] in
       case py_index ffcf 0 of Inl e \<Rightarrow> Inl e | Inr f0 \<Rightarrow>
       (case py_index tlist 0 of Inl e \<Rightarrow> Inl e | Inr t0 \<Rightarrow>
        (case py_pow (1 + discountRate) t0 of Inl e \<Rightarrow> Inl e | Inr p0 \<Rightarrow>
         (case py_truediv f0 p0 of Inl e \<Rightarrow> Inl e | Inr pv0 \<Rightarrow>
          (case dcf_loop 1 periodForwards growthRate discountRate tlist ffcf [pv0] of
             Inl e \<Rightarrow> Inl e
           | Inr (ffcf', pvffcf') \<Rightarrow> Inr (tlist, ffcf', pvffcf')))))))"

text \<open>
  Lines 25 to 44: the projection, the terminal cash flow appended to both lists
  (lines 39 and 40), the sum of the present values and the equity value.
\<close>

definition dcf_equityValue ::
  "real list \<Rightarrow> int \<Rightarrow> real \<Rightarrow> real \<Rightarrow> real \<Rightarrow> real \<Rightarrow> real \<Rightarrow> py_error + real" where
  "dcf_equityValue fcf periodForwards growthRate perpetualGrowthRate discountRate
       totalCash totalDebt =
     (case dcf_projection fcf periodForwards growthRate discountRate of
        Inl e \<Rightarrow> Inl e
      | Inr (tlist, ffcf, pvffcf) \<Rightarrow>
        (case py_index ffcf (- 1) of Inl e \<Rightarrow> Inl e | Inr lastf \<Rightarrow>
         (case py_truediv (lastf * (1 + perpetualGrowthRate))
                 (discountRate - perpetualGrowthRate) of
            Inl e \<Rightarrow> Inl e
          | Inr tv \<Rightarrow>
            (let ffcf' = ffcf @ [tv] in
             case py_index ffcf' (- 1) of Inl e \<Rightarrow> Inl e | Inr tvl \<Rightarrow>
             (case py_index tlist (- 1) of Inl e \<Rightarrow> Inl e | Inr tlast \<Rightarrow>
              (case py_pow (1 + discountRate) tlast of Inl e \<Rightarrow> Inl e | Inr p \<Rightarrow>
               (case py_truediv tvl p of Inl e \<Rightarrow> Inl e | Inr pvt \<Rightarrow>
                (let pvffcf' = pvffcf @ [pvt];
                     pvffcfSum = py_sum pvffcf'
                 in Inr (pvffcfSum + totalCash - totalDebt)))))))))"

text \<open>The whole function, lines 23 to 48: the equity value divided by the share count.\<close>

definition CalculateDCFDensity ::
  "real list \<Rightarrow> int \<Rightarrow> real \<Rightarrow> real \<Rightarrow> real \<Rightarrow> real \<Rightarrow> real \<Rightarrow> real \<Rightarrow> py_error + real" where
  "CalculateDCFDensity fcf periodForwards growthRate perpetualGrowthRate discountRate
       totalCash totalDebt outstandingShares =
     (case dcf_equityValue fcf periodForwards growthRate perpetualGrowthRate discountRate
             totalCash totalDebt of
        Inl e \<Rightarrow> Inl e
      | Inr equityValue \<Rightarrow> py_truediv equityValue outstandingShares)"

section \<open>Facts about the Python operations\<close>

lemma py_index_last: "xs \<noteq> [] \<Longrightarrow> py_index xs (- 1) = Inr (last xs)"
  by (cases xs rule: rev_cases) (simp_all add: py_index_def nat_add_distrib)

lemma py_index_Nil: "py_index [] i = Inl IndexError"
  by (simp add: py_index_def)

lemma py_index_nth:
  "0 \<le> i \<Longrightarrow> nat i < length xs \<Longrightarrow> py_index xs i = Inr (xs ! nat i)"
  by (simp add: py_index_def)

lemma length_py_range: "length (py_range a b) = nat (b - a)"
  by (simp add: py_range_def)

lemma nth_py_range: "k < nat (b - a) \<Longrightarrow> py_range a b ! k = a + int k"
  by (simp add: py_range_def)

lemma py_pow_nat: "0 \<le> n \<Longrightarrow> py_pow x n = Inr (x ^ nat n)"
  by (simp add: py_pow_def)

lemma foldl_plus_sum_list: "foldl (+) a xs = a + sum_list (xs :: real list)"
  by (induction xs arbitrary: a) simp_all

lemma py_sum_sum_list: "py_sum xs = sum_list xs"
  by (simp add: py_sum_def foldl_plus_sum_list)

lemma upt_0_Suc_shift: "[0..<Suc m] = 0 # map Suc [0..<m]"
  by (simp only: upt_conv_Cons [OF zero_less_Suc] map_Suc_upt)

section \<open>What the engine computes\<close>

text \<open>
  The loop, started at counter \<open>i\<close> with \<open>i\<close> projected years in \<open>ffcf\<close>, appends the
  years \<open>i + 1\<close> to \<open>periodForwards\<close>: each is the last one times \<open>1 + growthRate\<close>,
  and its present value divides by \<open>1 + discountRate\<close> to the power of its year.
\<close>

lemma dcf_loop_closed:
  assumes "1 \<le> i" and "length ffcf = nat i" and "1 + d \<noteq> 0"
    and "nat periodForwards < length tlist" and "\<forall>k < length tlist. tlist ! k = 1 + int k"
  shows "dcf_loop i periodForwards g d tlist ffcf pvffcf =
     Inr (ffcf @ map (\<lambda>k. last ffcf * (1 + g) ^ Suc k) [0..<nat (periodForwards - i)],
          pvffcf @ map (\<lambda>k. last ffcf * (1 + g) ^ Suc k / (1 + d) ^ (nat i + Suc k))
                     [0..<nat (periodForwards - i)])"
  using assms
proof (induction i periodForwards g d tlist ffcf pvffcf rule: dcf_loop.induct)
  case (1 i periodForwards g d tlist ffcf pvffcf)
  show ?case
  proof (cases "i < periodForwards")
    case False
    then show ?thesis by (subst dcf_loop.simps) simp
  next
    case True
    from "1.prems" have ne: "ffcf \<noteq> []" by auto
    define ffcf' where "ffcf' = ffcf @ [last ffcf * (1 + g)]"
    define pv where "pv = last ffcf * (1 + g) / (1 + d) ^ nat (1 + i)"
    have h1: "py_index ffcf (i - 1) = Inr (last ffcf)"
      using "1.prems"(1,2) ne by (simp add: py_index_def last_conv_nth nat_diff_distrib)
    have h2: "py_index ffcf' i = Inr (last ffcf * (1 + g))"
      using "1.prems"(1,2) by (simp add: py_index_def ffcf'_def nth_append)
    have h3: "py_index tlist i = Inr (1 + i)"
      using "1.prems"(1,4,5) True by (simp add: py_index_def)
    have h4: "py_pow (1 + d) (1 + i) = Inr ((1 + d) ^ nat (1 + i))"
      using "1.prems"(1) by (simp add: py_pow_def)
    have h5: "py_truediv (last ffcf * (1 + g)) ((1 + d) ^ nat (1 + i)) = Inr pv"
      using "1.prems"(3) by (simp add: py_truediv_def pv_def)
    have IH: "dcf_loop (i + 1) periodForwards g d tlist ffcf' (pvffcf @ [pv]) =
      Inr (ffcf' @ map (\<lambda>k. last ffcf' * (1 + g) ^ Suc k) [0..<nat (periodForwards - (i + 1))],
           (pvffcf @ [pv]) @ map (\<lambda>k. last ffcf' * (1 + g) ^ Suc k / (1 + d) ^ (nat (i + 1) + Suc k))
                     [0..<nat (periodForwards - (i + 1))])"
      using "1.IH" [OF True h1 ffcf'_def h2 h3 h4 h5] "1.prems"
      by (simp add: ffcf'_def nat_add_distrib)
    have m: "nat (periodForwards - i) = Suc (nat (periodForwards - (i + 1)))"
      using True by simp
    have step: "dcf_loop i periodForwards g d tlist ffcf pvffcf =
        dcf_loop (i + 1) periodForwards g d tlist ffcf' (pvffcf @ [pv])"
      by (subst dcf_loop.simps) (simp add: True h1 h2 [unfolded ffcf'_def] h3 h4 h5 ffcf'_def)
    have i1: "nat (1 + i) = Suc (nat i)" "nat (i + 1) = Suc (nat i)"
      using "1.prems"(1) by simp_all
    show ?thesis
      unfolding step IH m upt_0_Suc_shift
      by (simp add: ffcf'_def pv_def i1 o_def mult.assoc)
  qed
qed


text \<open>
  Lines 25 to 37 on a non-empty history, with a horizon that is not negative and a
  discount rate other than \<open>-1\<close>: the years \<open>1\<close> to \<open>max 1 periodForwards\<close>.
\<close>

lemma dcf_projection_closed:
  assumes "fcf \<noteq> []" and "0 \<le> periodForwards" and "1 + d \<noteq> 0"
  shows "dcf_projection fcf periodForwards g d =
     Inr (py_range 1 (periodForwards + 2),
          map (\<lambda>k. last fcf * (1 + g) ^ Suc k) [0..<Suc (nat (periodForwards - 1))],
          map (\<lambda>k. last fcf * (1 + g) ^ Suc k / (1 + d) ^ Suc k)
            [0..<Suc (nat (periodForwards - 1))])"
proof -
  define tlist where "tlist = py_range 1 (periodForwards + 2)"
  have len: "length tlist = nat (periodForwards + 1)"
    by (simp add: tlist_def length_py_range)
  have nth: "\<forall>k < length tlist. tlist ! k = 1 + int k"
    by (simp add: tlist_def length_py_range nth_py_range)
  have t0: "py_index tlist 0 = Inr 1"
    using assms(2) len nth by (simp add: py_index_def)
  have loop: "dcf_loop 1 periodForwards g d tlist [last fcf * (1 + g)]
        [last fcf * (1 + g) / (1 + d)] =
     Inr ([last fcf * (1 + g)] @
            map (\<lambda>k. last [last fcf * (1 + g)] * (1 + g) ^ Suc k) [0..<nat (periodForwards - 1)],
          [last fcf * (1 + g) / (1 + d)] @
            map (\<lambda>k. last [last fcf * (1 + g)] * (1 + g) ^ Suc k / (1 + d) ^ (nat 1 + Suc k))
              [0..<nat (periodForwards - 1)])"
    using assms(2,3) len nth by (intro dcf_loop_closed) simp_all
  show ?thesis
    unfolding dcf_projection_def Let_def tlist_def [symmetric] upt_0_Suc_shift
    using assms(1,3)
    by (simp add: py_index_last py_index_def [of "[_]"] t0 py_pow_def py_truediv_def loop
        o_def mult.assoc)
qed


lemma py_index_last_range:
  assumes "0 \<le> periodForwards"
  shows "py_index (py_range 1 (periodForwards + 2)) (- 1) = Inr (periodForwards + 1)"
proof -
  have ne: "py_range 1 (periodForwards + 2) \<noteq> []"
    using assms length_py_range [of 1 "periodForwards + 2"] by auto
  have "last (py_range 1 (periodForwards + 2)) = periodForwards + 1"
    using assms ne by (simp add: last_conv_nth length_py_range nth_py_range)
  with ne show ?thesis by (simp add: py_index_last)
qed

text \<open>The equity value and the per-share value in closed form.\<close>

lemma dcf_equityValue_closed:
  assumes "fcf \<noteq> []" and "0 \<le> periodForwards" and "1 + d \<noteq> 0" and "d \<noteq> pg"
  shows "dcf_equityValue fcf periodForwards g pg d totalCash totalDebt =
     Inr ((\<Sum>k<Suc (nat (periodForwards - 1)). last fcf * (1 + g) ^ Suc k / (1 + d) ^ Suc k)
          + last fcf * (1 + g) ^ Suc (nat (periodForwards - 1)) * (1 + pg) / (d - pg)
              / (1 + d) ^ nat (periodForwards + 1)
          + totalCash - totalDebt)"
proof -
  let ?n = "Suc (nat (periodForwards - 1))"
  let ?F = "\<lambda>k. last fcf * (1 + g) ^ Suc k"
  have lastf: "py_index (map ?F [0..<?n]) (- 1) = Inr (?F (nat (periodForwards - 1)))"
    by (subst py_index_last) (simp_all add: last_map del: upt_Suc)
  have sum: "sum_list (map (\<lambda>k. ?F k / (1 + d) ^ Suc k) [0..<?n]) =
      (\<Sum>k<?n. ?F k / (1 + d) ^ Suc k)"
    by (simp only: interv_sum_list_conv_sum_set_nat set_upt atLeast0LessThan)
  show ?thesis
    unfolding dcf_equityValue_def dcf_projection_closed [OF assms(1-3)]
    using assms(2-4)
    by (simp add: lastf py_truediv_def py_index_last py_index_last_range py_pow_def
        py_sum_sum_list sum Let_def del: upt_Suc sum.lessThan_Suc power_Suc)
qed

lemma CalculateDCFDensity_closed:
  assumes "fcf \<noteq> []" and "0 \<le> periodForwards" and "1 + d \<noteq> 0" and "d \<noteq> pg"
    and "outstandingShares \<noteq> 0"
  shows "CalculateDCFDensity fcf periodForwards g pg d totalCash totalDebt outstandingShares =
     Inr (((\<Sum>k<Suc (nat (periodForwards - 1)). last fcf * (1 + g) ^ Suc k / (1 + d) ^ Suc k)
          + last fcf * (1 + g) ^ Suc (nat (periodForwards - 1)) * (1 + pg) / (d - pg)
              / (1 + d) ^ nat (periodForwards + 1)
          + totalCash - totalDebt) / outstandingShares)"
  unfolding CalculateDCFDensity_def dcf_equityValue_closed [OF assms(1-4)]
  using assms(5) by (simp add: py_truediv_def)

section \<open>Where the engine raises\<close>

text \<open>
  The function has no check of its own on its arguments: an exception comes from the
  first list access or division that fails. An empty history fails at \<open>fcf[-1]\<close>
  (line 29), a negative horizon leaves \<open>tlist\<close> empty and fails at \<open>tlist[0]\<close>
  (line 32), a discount rate of \<open>-1\<close> divides by zero on line 32, equal discount and
  perpetual growth rates divide by zero on line 39.
\<close>

lemma dcf_projection_empty: "dcf_projection [] periodForwards g d = Inl IndexError"
  by (simp add: dcf_projection_def py_index_Nil)

lemma dcf_projection_negative:
  assumes "periodForwards < 0"
  shows "dcf_projection fcf periodForwards g d = Inl IndexError"
proof (cases "fcf = []")
  case True
  then show ?thesis by (simp add: dcf_projection_empty)
next
  case False
  have "py_range 1 (periodForwards + 2) = []"
    using assms by (simp add: py_range_def)
  then show ?thesis
    using False by (simp add: dcf_projection_def py_index_last py_index_Nil py_index_def [of "[_]"])
qed

lemma dcf_projection_zero_discount:
  assumes "fcf \<noteq> []" and "0 \<le> periodForwards" and "1 + d = 0"
  shows "dcf_projection fcf periodForwards g d = Inl ZeroDivisionError"
proof -
  have "py_index (py_range 1 (periodForwards + 2)) 0 = Inr 1"
    using assms(2) by (simp add: py_index_def length_py_range nth_py_range)
  then show ?thesis
    using assms(1,3)
    by (simp add: dcf_projection_def py_index_last py_index_def [of "[_]"] py_pow_def
        py_truediv_def)
qed

lemma dcf_equityValue_equal_rates:
  assumes "fcf \<noteq> []" and "0 \<le> periodForwards" and "1 + d \<noteq> 0"
  shows "dcf_equityValue fcf periodForwards g d d totalCash totalDebt = Inl ZeroDivisionError"
proof -
  have "py_index (map (\<lambda>k. last fcf * (1 + g) ^ Suc k) [0..<Suc (nat (periodForwards - 1))]) (- 1)
      = Inr (last fcf * (1 + g) ^ Suc (nat (periodForwards - 1)))"
    by (subst py_index_last) (simp_all add: last_map del: upt_Suc)
  then show ?thesis
    unfolding dcf_equityValue_def dcf_projection_closed [OF assms]
    by (simp add: py_truediv_def del: upt_Suc power_Suc)
qed

text \<open>Every input falls under one of three outcomes.\<close>

lemma CalculateDCFDensity_cases:
  "CalculateDCFDensity fcf periodForwards g pg d totalCash totalDebt outstandingShares =
     (if fcf = [] \<or> periodForwards < 0 then Inl IndexError
      else if 1 + d = 0 \<or> d = pg \<or> outstandingShares = 0 then Inl ZeroDivisionError
      else Inr (((\<Sum>k<Suc (nat (periodForwards - 1)).
                    last fcf * (1 + g) ^ Suc k / (1 + d) ^ Suc k)
          + last fcf * (1 + g) ^ Suc (nat (periodForwards - 1)) * (1 + pg) / (d - pg)
              / (1 + d) ^ nat (periodForwards + 1)
          + totalCash - totalDebt) / outstandingShares))"
proof -
  consider (empty) "fcf = []" | (neg) "fcf \<noteq> []" "periodForwards < 0"
    | (disc) "fcf \<noteq> []" "0 \<le> periodForwards" "1 + d = 0"
    | (rates) "fcf \<noteq> []" "0 \<le> periodForwards" "1 + d \<noteq> 0" "d = pg"
    | (shares) "fcf \<noteq> []" "0 \<le> periodForwards" "1 + d \<noteq> 0" "d \<noteq> pg" "outstandingShares = 0"
    | (ok) "fcf \<noteq> []" "0 \<le> periodForwards" "1 + d \<noteq> 0" "d \<noteq> pg" "outstandingShares \<noteq> 0"
    by linarith
  then show ?thesis
  proof cases
    case empty
    then show ?thesis
      by (simp add: CalculateDCFDensity_def dcf_equityValue_def dcf_projection_empty)
  next
    case neg
    then show ?thesis
      by (simp add: CalculateDCFDensity_def dcf_equityValue_def dcf_projection_negative)
  next
    case disc
    then show ?thesis
      by (simp add: CalculateDCFDensity_def dcf_equityValue_def dcf_projection_zero_discount)
  next
    case rates
    then show ?thesis
      by (simp add: CalculateDCFDensity_def dcf_equityValue_equal_rates)
  next
    case shares
    then show ?thesis
      by (simp add: CalculateDCFDensity_def dcf_equityValue_closed py_truediv_def
          del: sum.lessThan_Suc power_Suc)
  next
    case ok
    then show ?thesis
      using CalculateDCFDensity_closed [OF ok, of g totalCash totalDebt] by simp
  qed
qed


section \<open>The claims of the specification\<close>

text \<open>The definitions to unfold when the engine is run on a concrete input.\<close>

lemmas dcf_eval = CalculateDCFDensity_def dcf_equityValue_def dcf_projection_def dcf_loop.simps
  py_index_def py_range_def py_pow_def py_truediv_def py_sum_def

subsection \<open>C1: the value returned\<close>




subsection \<open>C2: the worked example\<close>

text \<open>
  Claim C2. On the history \<open>[100]\<close> with one projected year, no growth, perpetual growth
  0.02, discount rate 0.08, no cash, no debt and 10 shares: the projected cash flow of
  year 1 is 100 and its present value 100 / 1.08; the terminal value is 1700 and its
  present value 1700 / 1.08 ^ 2; the equity value is within 0.1 of 1550.06; the result
  is 113000 / 729, within 0.001 of 155.006.
\<close>

theorem CalculateDCFDensity_worked_example:
  "dcf_projection [100] 1 0 (8 / 100) = Inr ([1, 2], [100], [100 / (108 / 100)])
   \<and> py_truediv (100 * (1 + 2 / 100)) (8 / 100 - 2 / 100) = Inr 1700
   \<and> py_truediv 1700 ((1 + 8 / 100) ^ 2) = Inr (1700 / (108 / 100) ^ 2)
   \<and> dcf_equityValue [100] 1 0 (2 / 100) (8 / 100) 0 0
       = Inr (100 / (108 / 100) + 1700 / (108 / 100) ^ 2)
   \<and> \<bar>100 / (108 / 100) + 1700 / (108 / 100) ^ 2 - 155006 / 100\<bar> < (1 / 10 :: real)
   \<and> CalculateDCFDensity [100] 1 0 (2 / 100) (8 / 100) 0 0 10 = Inr (113000 / 729)
   \<and> \<bar>113000 / 729 - 155006 / 1000\<bar> < (1 / 1000 :: real)"
  by (simp add: dcf_eval power2_eq_square upt_rec)

subsection \<open>C3: discount rate not above the perpetual growth rate\<close>




subsection \<open>C4: empty history\<close>



subsection \<open>C5: share count not above zero\<close>




subsection \<open>C6: horizon below one\<close>

text \<open>
  A horizon of zero is accepted. Line 31 projects year 1 before the loop, the loop does
  not run, and the terminal value is discounted at \<open>t = 1\<close>, the only element of
  \<open>tlist\<close>.
\<close>

theorem CalculateDCFDensity_zero_horizon:
  "CalculateDCFDensity [100] 0 0 (2 / 100) (8 / 100) 0 0 10 = Inr (500 / 3)"
  by (simp add: dcf_eval)

text \<open>
  Claim C6, as the code has it. A horizon of \<open>-1\<close> or less makes the engine fail with
  IndexError, whatever the other arguments (\<open>tlist\<close> is empty, and \<open>tlist[0]\<close> on line 32
  raises, unless \<open>fcf[-1]\<close> has raised before). A horizon of zero returns a value: year 1
  and the terminal value computed from it, both discounted by \<open>1 + discountRate\<close>.
\<close>

theorem CalculateDCFDensity_horizon:
  "(periodForwards \<le> - 1 \<longrightarrow>
      CalculateDCFDensity fcf periodForwards growthRate perpetualGrowthRate discountRate
        totalCash totalDebt outstandingShares = Inl IndexError)
   \<and> (fcf \<noteq> [] \<and> discountRate \<noteq> - 1 \<and> discountRate \<noteq> perpetualGrowthRate
        \<and> outstandingShares \<noteq> 0 \<longrightarrow>
      CalculateDCFDensity fcf 0 growthRate perpetualGrowthRate discountRate
        totalCash totalDebt outstandingShares
      = Inr ((last fcf * (1 + growthRate) / (1 + discountRate)
              + last fcf * (1 + growthRate) * (1 + perpetualGrowthRate)
                  / ((discountRate - perpetualGrowthRate) * (1 + discountRate))
              + totalCash - totalDebt) / outstandingShares))"
proof -
  have "discountRate \<noteq> - 1 \<longleftrightarrow> 1 + discountRate \<noteq> 0"
    by linarith
  then show ?thesis
    by (simp add: CalculateDCFDensity_cases)
qed

theorem CalculateDCFDensity_horizon_witness:
  "(- 1 :: int) \<le> - 1
   \<and> CalculateDCFDensity [100] (- 1) 0 (2 / 100) (8 / 100) 0 0 10 = Inl IndexError
   \<and> [100] \<noteq> ([] :: real list) \<and> (8 / 100 :: real) \<noteq> - 1 \<and> (8 / 100 :: real) \<noteq> 2 / 100
   \<and> (10 :: real) \<noteq> 0
   \<and> CalculateDCFDensity [100] 0 0 (2 / 100) (8 / 100) 0 0 10 = Inr (500 / 3)"
  using CalculateDCFDensity_horizon [of "- 1" "[100]" 0 "2 / 100" "8 / 100" 0 0 10]
  by simp

subsection \<open>C7: monotonicity\<close>



subsection \<open>C8: only the last element of the history counts\<close>

text \<open>
  Claim C8. Two non-empty histories with the same last element give the same outcome,
  everything else being equal.
\<close>

theorem CalculateDCFDensity_last_element:
  assumes "fcf \<noteq> []" and "fcf' \<noteq> []" and "last fcf = last fcf'"
  shows "CalculateDCFDensity fcf periodForwards growthRate perpetualGrowthRate discountRate
           totalCash totalDebt outstandingShares
       = CalculateDCFDensity fcf' periodForwards growthRate perpetualGrowthRate discountRate
           totalCash totalDebt outstandingShares"
proof -
  have "dcf_projection fcf periodForwards growthRate discountRate
      = dcf_projection fcf' periodForwards growthRate discountRate"
    using assms by (simp add: dcf_projection_def py_index_last)
  then show ?thesis
    by (simp add: CalculateDCFDensity_def dcf_equityValue_def)
qed

theorem CalculateDCFDensity_last_element_witness:
  "[5, 7, 100] \<noteq> ([] :: real list) \<and> [100] \<noteq> ([] :: real list)
   \<and> last [5, 7, 100] = last [100 :: real]
   \<and> CalculateDCFDensity [5, 7, 100] 3 (1 / 10) (2 / 100) (8 / 100) 50 20 10
     = CalculateDCFDensity [100] 3 (1 / 10) (2 / 100) (8 / 100) 50 20 10"
  using CalculateDCFDensity_last_element
      [of "[5, 7, 100]" "[100]" 3 "1 / 10" "2 / 100" "8 / 100" 50 20 10]
  by simp

subsection \<open>C9: no growth, flat projection\<close>

text \<open>
  Claim C9. With \<open>growthRate = 0\<close>, a non-empty history and a horizon of at least one
  year, the explicit projection \<open>ffcf\<close>, as it stands when the loop has finished, is
  \<open>periodForwards\<close> copies of the last element of the history; and the projection is
  produced whenever the discount rate is not \<open>-1\<close>.
\<close>

theorem dcf_projection_flat:
  assumes "fcf \<noteq> []" and "1 \<le> periodForwards"
  shows "(dcf_projection fcf periodForwards 0 discountRate = Inr (tlist, ffcf, pvffcf)
            \<longrightarrow> ffcf = replicate (nat periodForwards) (last fcf))
       \<and> (discountRate \<noteq> - 1
            \<longrightarrow> (\<exists>tlist pvffcf. dcf_projection fcf periodForwards 0 discountRate
                     = Inr (tlist, replicate (nat periodForwards) (last fcf), pvffcf)))"
proof (cases "1 + discountRate = 0")
  case True
  then have "dcf_projection fcf periodForwards 0 discountRate = Inl ZeroDivisionError"
    using assms by (simp add: dcf_projection_zero_discount)
  moreover from True have "discountRate = - 1"
    by linarith
  ultimately show ?thesis by simp
next
  case False
  have n: "Suc (nat (periodForwards - 1)) = nat periodForwards"
    using assms(2) by simp
  have "map (\<lambda>k. last fcf * (1 + 0) ^ Suc k) [0..<nat periodForwards]
      = replicate (nat periodForwards) (last fcf)"
    by (simp add: map_replicate_const)
  then show ?thesis
    using dcf_projection_closed [of fcf periodForwards discountRate 0] assms False
    by (simp only: n) simp
qed

theorem dcf_projection_flat_witness:
  "[5, 7, 100] \<noteq> ([] :: real list) \<and> (1 :: int) \<le> 3 \<and> (8 / 100 :: real) \<noteq> - 1
   \<and> dcf_projection [5, 7, 100] 3 0 (8 / 100)
       = Inr ([1, 2, 3, 4], [100, 100, 100], [2500 / 27, 62500 / 729, 1562500 / 19683])
   \<and> [100, 100, 100] = replicate (nat 3) (last [5, 7, 100 :: real])
   \<and> (\<exists>tlist pvffcf. dcf_projection [5, 7, 100] 3 0 (8 / 100)
          = Inr (tlist, [100, 100, 100], pvffcf))"
  using dcf_projection_flat [of "[5, 7, 100]" 3 "8 / 100" "[1, 2, 3, 4]" "[100, 100, 100]"
      "[2500 / 27, 62500 / 729, 1562500 / 19683]"]
  by (simp add: dcf_eval numeral_3_eq_3 power2_eq_square power3_eq_cube upt_rec nth_append)

subsection \<open>C10: homogeneity in the monetary inputs\<close>



end
